theory Spec2Isabelle
  imports Main "HOL-Library.Sublist"
begin

section \<open>AllergyGuard front end: the dish report services\<close>

text \<open>
  The development embeds \<^verbatim>\<open>services/geminiservices.ts\<close> (the functions
  \<^verbatim>\<open>analyzeDish\<close> and \<^verbatim>\<open>analyzeDishFromBackend\<close>), the badge helper
  \<^verbatim>\<open>getIcon\<close> of \<^verbatim>\<open>components/allergen-badge.tsx\<close>, and the
  \<^verbatim>\<open>ResultPage\<close> component, over the types of \<^verbatim>\<open>types.ts\<close>.

  Strings are HOL strings, lists of 8-bit characters: a character is a code unit
  below 256 of the host language's strings (ASCII and the Latin-1 supplement), which
  is where every literal of the source lives.
\<close>

subsection \<open>Types (types.ts)\<close>

datatype AllergenSeverity = High | Medium | Low

datatype RiskLevel = LOW | MEDIUM | HIGH

record Allergen =
  name :: string
  severity :: AllergenSeverity
  description :: "string option"

record DishReport =
  dishName :: string
  restaurant :: "string option"
  allergens :: "Allergen list"
  safeAllergens :: "string list"
  ingredients :: "string list"
  riskLevel :: RiskLevel
  isDairyFree :: bool
  isGlutenFree :: bool
  isNutFree :: bool
  isVegan :: bool
  isVegetarian :: bool
  recommendations :: "string list option"
  scanTime :: "string option"

subsection \<open>String operations of the host language\<close>

text \<open>
  \<^verbatim>\<open>String.prototype.toLowerCase\<close>. Below 256 the letters with a lower case are
  A to Z and the Latin-1 capitals 192 to 222 (all but the multiplication sign 215);
  each is 32 below its lower case.
\<close>

definition lower_char :: "char \<Rightarrow> char" where
  "lower_char c =
     (let n = (of_char c :: nat)
      in if (65 \<le> n \<and> n \<le> 90) \<or> (192 \<le> n \<and> n \<le> 222 \<and> n \<noteq> 215)
         then char_of (n + 32) else c)"

text \<open>
  \<^verbatim>\<open>String.prototype.toUpperCase\<close>. Below 256 it maps a to z and the Latin-1 small
  letters 224 to 254 (all but the division sign 247) to the letter 32 below. Three
  characters have an upper case that is no single character below 256 (the micro sign
  181, the sharp s 223 and the y with diaeresis 255); they are left as they are here,
  and what is proved of an upper-cased string is stated for ASCII text.
\<close>

definition upper_char :: "char \<Rightarrow> char" where
  "upper_char c =
     (let n = (of_char c :: nat)
      in if (97 \<le> n \<and> n \<le> 122) \<or> (224 \<le> n \<and> n \<le> 254 \<and> n \<noteq> 247)
         then char_of (n - 32) else c)"

text \<open>ASCII text: every character is below 128.\<close>

definition ascii :: "string \<Rightarrow> bool" where
  "ascii s = list_all (\<lambda>c. (of_char c :: nat) < 128) s"

definition toLowerCase :: "string \<Rightarrow> string" where
  "toLowerCase s = map lower_char s"

definition toUpperCase :: "string \<Rightarrow> string" where
  "toUpperCase s = map upper_char s"

text \<open>\<^verbatim>\<open>String.prototype.trim\<close>: white space and line terminators are removed at
  both ends. Below 256 these are tab, line feed, vertical tab, form feed, carriage
  return (9 to 13), space (32) and the no-break space (160).\<close>

definition is_space :: "char \<Rightarrow> bool" where
  "is_space c = (let n = (of_char c :: nat) in (9 \<le> n \<and> n \<le> 13) \<or> n = 32 \<or> n = 160)"

definition trim :: "string \<Rightarrow> string" where
  "trim s = rev (dropWhile is_space (rev (dropWhile is_space s)))"

text \<open>\<^verbatim>\<open>s.includes(t)\<close>: \<open>t\<close> occurs in \<open>s\<close> at some position.\<close>

fun includes_str :: "string \<Rightarrow> string \<Rightarrow> bool" where
  "includes_str [] t = (t = [])"
| "includes_str (c # cs) t = (prefix t (c # cs) \<or> includes_str cs t)"

text \<open>\<^verbatim>\<open>s.charAt(0)\<close> is the empty string on the empty string; \<^verbatim>\<open>s.slice(1)\<close>
  drops the first character.\<close>

definition charAt0 :: "string \<Rightarrow> string" where
  "charAt0 s = take 1 s"

definition slice1 :: "string \<Rightarrow> string" where
  "slice1 s = drop 1 s"

subsection \<open>The simulated analysis (geminiservices.ts, analyzeDish)\<close>

text \<open>
  Every \<^verbatim>\<open>new Date().toISOString()\<close> reads the clock. A \<open>clock\<close> gives the
  text of the \<open>k\<close>-th reading of one call: the two entries of \<^verbatim>\<open>mockData\<close> are
  built first (readings 0 and 1), the default report, when it is built, takes reading 2.
\<close>

type_synonym clock = "nat \<Rightarrow> string"

definition padThai :: "string \<Rightarrow> DishReport" where
  "padThai t = \<lparr>
     dishName = ''Pad Thai'',
     restaurant = Some ''Thai Street Kitchen'',
     allergens = [
       \<lparr>name = ''Peanuts'', severity = High,
        description = Some ''Contains crushed peanuts as topping''\<rparr>,
       \<lparr>name = ''Shellfish'', severity = Medium, description = Some ''Shrimp in sauce''\<rparr>,
       \<lparr>name = ''Eggs'', severity = Low, description = Some ''Used in noodle preparation''\<rparr>],
     safeAllergens = [''Dairy'', ''Gluten'', ''Soy'', ''Tree Nuts''],
     ingredients = [''Rice noodles'', ''Shrimp'', ''Eggs'', ''Peanuts'', ''Tamarind sauce'',
       ''Fish sauce'', ''Bean sprouts'', ''Green onions'', ''Lime''],
     riskLevel = HIGH,
     isDairyFree = True,
     isGlutenFree = False,
     isNutFree = False,
     isVegan = False,
     isVegetarian = False,
     recommendations = Some [''Request no peanuts if allergic'',
       ''Ask for vegetarian version without shrimp'', ''Check if sauce contains gluten''],
     scanTime = Some t\<rparr>"

definition burger :: "string \<Rightarrow> DishReport" where
  "burger t = \<lparr>
     dishName = ''Classic Burger'',
     restaurant = Some ''Burger House'',
     allergens = [
       \<lparr>name = ''Gluten'', severity = High, description = Some ''Wheat bun''\<rparr>,
       \<lparr>name = ''Dairy'', severity = Medium, description = Some ''Cheese and mayo''\<rparr>,
       \<lparr>name = ''Eggs'', severity = Low, description = Some ''In bun and sauce''\<rparr>],
     safeAllergens = [''Nuts'', ''Shellfish'', ''Soy''],
     ingredients = [''Beef patty'', ''Wheat bun'', ''Cheddar cheese'', ''Lettuce'', ''Tomato'',
       ''Onion'', ''Pickles'', ''Mayo'', ''Ketchup''],
     riskLevel = MEDIUM,
     isDairyFree = False,
     isGlutenFree = False,
     isNutFree = True,
     isVegan = False,
     isVegetarian = False,
     recommendations = Some [''Request lettuce wrap instead of bun for gluten-free'',
       ''Ask for no cheese if dairy-free'', ''Plant-based patty available''],
     scanTime = Some t\<rparr>"

text \<open>The object literal after \<^verbatim>\<open>||\<close>: the report for a name that selects nothing.\<close>

definition defaultReport :: "string \<Rightarrow> string \<Rightarrow> DishReport" where
  "defaultReport dish t = \<lparr>
     dishName = dish,
     restaurant = Some ''Unknown Restaurant'',
     allergens = [\<lparr>name = ''Gluten'', severity = Medium,
       description = Some ''May contain wheat''\<rparr>],
     safeAllergens = [''Nuts'', ''Dairy'', ''Shellfish''],
     ingredients = [''Unknown ingredients - please verify with staff''],
     riskLevel = MEDIUM,
     isDairyFree = False,
     isGlutenFree = False,
     isNutFree = True,
     isVegan = False,
     isVegetarian = False,
     recommendations = Some [''Please verify ingredients with restaurant staff''],
     scanTime = Some t\<rparr>"

text \<open>
  \<^verbatim>\<open>mockData[normalizedName]\<close> is a property read on an object literal. It finds the
  two own properties, and it also finds what a plain object inherits from
  \<^verbatim>\<open>Object.prototype\<close>. The key has been lower-cased, so of the inherited names only
  those without a capital letter can be asked for: \<^verbatim>\<open>constructor\<close> (the function
  \<^verbatim>\<open>Object\<close>) and \<^verbatim>\<open>__proto__\<close> (the prototype object). Both are truthy and
  neither is a report. Any other key reads \<^verbatim>\<open>undefined\<close>, here \<open>None\<close>.
\<close>

datatype js_value = ReportV DishReport | ObjectConstructor | ObjectPrototype

definition mockData :: "clock \<Rightarrow> string \<Rightarrow> js_value option" where
  "mockData clk key =
     (if key = ''pad thai'' then Some (ReportV (padThai (clk 0)))
      else if key = ''burger'' then Some (ReportV (burger (clk 1)))
      else if key = ''constructor'' then Some ObjectConstructor
      else if key = ''__proto__'' then Some ObjectPrototype
      else None)"

text \<open>
  Both services are \<^verbatim>\<open>async\<close>: a call ends in a value or in a rejection. A rejection
  is \<open>Inl\<close> of its error. The two-second delay of \<^verbatim>\<open>analyzeDish\<close> always ends and
  changes no value, so it has no counterpart here.
\<close>

datatype error = NetworkError | FailedToFetch | BadBody | TypeError

definition analyzeDish :: "clock \<Rightarrow> string \<Rightarrow> error + js_value" where
  "analyzeDish clk dish =
     (let normalizedName = trim (toLowerCase dish)
      in case mockData clk normalizedName of
           Some v \<Rightarrow> Inr v
         | None \<Rightarrow> Inr (ReportV (defaultReport dish (clk 2))))"

text \<open>The report inside a value, when the value is one.\<close>

fun report_of :: "error + js_value \<Rightarrow> DishReport option" where
  "report_of (Inr (ReportV r)) = Some r"
| "report_of _ = None"

text \<open>A result with the scan time of its report taken out, to compare two runs.\<close>

fun without_scanTime :: "error + js_value \<Rightarrow> error + js_value" where
  "without_scanTime (Inr (ReportV r)) = Inr (ReportV (r\<lparr>scanTime := None\<rparr>))"
| "without_scanTime v = v"

subsection \<open>The backend integration (geminiservices.ts, analyzeDishFromBackend)\<close>

text \<open>
  The fields of the response body that the function reads:
  \<^verbatim>\<open>data.dish.name\<close>, \<^verbatim>\<open>data.restaurant.name\<close>,
  \<^verbatim>\<open>data.safety_report.allergens.allergens_detected\<close>, \<^verbatim>\<open>data.ingredients\<close>,
  \<^verbatim>\<open>data.safety_report.risk_level\<close>, \<^verbatim>\<open>data.safety_report.recommendations\<close>
  and the four \<^verbatim>\<open>data.dietary_flags\<close>.
\<close>

record scan_response =
  dish_name :: string
  restaurant_name :: string
  allergens_detected :: "string list"
  data_ingredients :: "string list"
  risk_level :: RiskLevel
  data_recommendations :: "string list"
  dairy_free :: bool
  gluten_free :: bool
  vegan :: bool
  vegetarian :: bool

text \<open>
  What \<^verbatim>\<open>fetch\<close> gives for a URL: it rejects, or it yields a response with its
  \<^verbatim>\<open>ok\<close> flag and a body. The body is \<open>None\<close> when it is not JSON of the shape
  above (then \<^verbatim>\<open>response.json()\<close> rejects or a read of an absent field throws).
\<close>

datatype fetch_result = FetchRejected | Response bool "scan_response option"

text \<open>The transformation of a body into a report (lines 112 to 134), at clock text \<open>t\<close>.\<close>

definition transformResponse :: "string \<Rightarrow> scan_response \<Rightarrow> DishReport" where
  "transformResponse t data =
     (let allergens = map (\<lambda>name. \<lparr>name = toUpperCase (charAt0 name) @ slice1 name,
                                     severity = High,
                                     description = Some (''Contains '' @ name)\<rparr>)
                          (allergens_detected data)
      in \<lparr>dishName = dish_name data,
          restaurant = Some (restaurant_name data),
          allergens = allergens,
          safeAllergens = [],
          ingredients = data_ingredients data,
          riskLevel = risk_level data,
          isDairyFree = dairy_free data,
          isGlutenFree = gluten_free data,
          isNutFree = list_all (\<lambda>a. \<not> includes_str (toLowerCase (name a)) ''nut'') allergens,
          isVegan = vegan data,
          isVegetarian = vegetarian data,
          recommendations = Some (data_recommendations data),
          scanTime = Some t\<rparr>)"

definition analyzeDishFromBackend ::
    "clock \<Rightarrow> (string \<Rightarrow> fetch_result) \<Rightarrow> string \<Rightarrow> error + DishReport" where
  "analyzeDishFromBackend clk fetch token =
     (case fetch (''http://localhost:8000/scan/'' @ token) of
        FetchRejected \<Rightarrow> Inl NetworkError
      | Response ok body \<Rightarrow>
          if \<not> ok then Inl FailedToFetch
          else (case body of
                  None \<Rightarrow> Inl BadBody
                | Some data \<Rightarrow> Inr (transformResponse (clk 0) data)))"

subsection \<open>The allergen badge (allergen-badge.tsx)\<close>

definition getIcon :: "string \<Rightarrow> string" where
  "getIcon nm =
     (let lower = toLowerCase nm
      in if includes_str lower ''nut'' \<or> includes_str lower ''peanut'' then ''eco''
         else if includes_str lower ''dairy'' \<or> includes_str lower ''milk'' then ''water_drop''
         else if includes_str lower ''gluten'' \<or> includes_str lower ''wheat'' then ''grain''
         else if includes_str lower ''shellfish'' \<or> includes_str lower ''fish'' then ''set_meal''
         else if includes_str lower ''egg'' then ''egg''
         else if includes_str lower ''soy'' then ''nature''
         else ''warning'')"

fun getSeverityColor :: "AllergenSeverity \<Rightarrow> string" where
  "getSeverityColor High = ''bg-danger/20 text-danger border-danger/30''"
| "getSeverityColor Medium = ''bg-warning/20 text-warning border-warning/30''"
| "getSeverityColor Low = ''bg-yellow-500/20 text-yellow-500 border-yellow-500/30''"

datatype badge_size = Sm | Md | Lg

fun getSizeClasses :: "badge_size \<Rightarrow> string" where
  "getSizeClasses Sm = ''px-2 py-0.5 text-[10px]''"
| "getSizeClasses Lg = ''px-4 py-2 text-sm''"
| "getSizeClasses Md = ''px-3 py-1 text-xs''"

record badge_view =
  badge_icon :: string
  badge_label :: string
  badge_size_classes :: string
  badge_color :: string

definition AllergenBadge :: "Allergen \<Rightarrow> badge_size \<Rightarrow> badge_view" where
  "AllergenBadge allergen sz =
     \<lparr>badge_icon = getIcon (name allergen),
      badge_label = name allergen,
      badge_size_classes = getSizeClasses sz,
      badge_color = getSeverityColor (severity allergen)\<rparr>"

subsection \<open>The result page (ResultPage)\<close>

text \<open>
  The prop \<^verbatim>\<open>report\<close> has type \<^verbatim>\<open>DishReport | null\<close>. Reading a field of
  \<^verbatim>\<open>null\<close> throws a \<^verbatim>\<open>TypeError\<close>: \<open>rd\<close> is a field read on such a value,
  and \<open>bind_err\<close> passes the first error on.
\<close>

definition rd :: "DishReport option \<Rightarrow> (DishReport \<Rightarrow> 'a) \<Rightarrow> error + 'a" where
  "rd report field = (case report of None \<Rightarrow> Inl TypeError | Some r \<Rightarrow> Inr (field r))"

definition bind_err :: "error + 'a \<Rightarrow> ('a \<Rightarrow> error + 'b) \<Rightarrow> error + 'b" where
  "bind_err m f = (case m of Inl e \<Rightarrow> Inl e | Inr x \<Rightarrow> f x)"

text \<open>A string is truthy when it is defined and not empty.\<close>

definition truthy :: "string option \<Rightarrow> string option" where
  "truthy s = (case s of None \<Rightarrow> None | Some x \<Rightarrow> if x = [] then None else Some x)"

fun getRiskColor :: "RiskLevel \<Rightarrow> string" where
  "getRiskColor HIGH = ''bg-danger/20 text-danger border-danger/30''"
| "getRiskColor MEDIUM = ''bg-warning/20 text-warning border-warning/30''"
| "getRiskColor LOW = ''bg-primary/20 text-primary border-primary/30''"

fun getRiskIcon :: "RiskLevel \<Rightarrow> string" where
  "getRiskIcon HIGH = ''error''"
| "getRiskIcon MEDIUM = ''warning''"
| "getRiskIcon LOW = ''check_circle''"

text \<open>
  The rendered page, reduced to what it shows: the fallback, or the sections of the
  result in the order of the markup. The scan time line keeps the ISO text (its
  locale formatting is left out).
\<close>

datatype allergen_section =
    AllClear
  | AllergenWarning nat "(badge_view \<times> string option) list"

record result_view =
  title :: string
  restaurant_line :: "string option"
  risk_color :: string
  risk_icon :: string
  risk_label :: RiskLevel
  flag_chips :: "(string \<times> bool \<times> string) list"
  allergen_box :: allergen_section
  safe_box :: "string list option"
  ingredient_chips :: "string list"
  recommendation_box :: "string list option"
  scan_time_line :: "string option"

datatype view = NoScanData | ScanResults result_view

definition ResultPage :: "DishReport option \<Rightarrow> error + view" where
  "ResultPage report =
     (if report = None then Inr NoScanData
      else
        bind_err (rd report dishName) (\<lambda>dn.
        bind_err (rd report restaurant) (\<lambda>rest.
        bind_err (rd report riskLevel) (\<lambda>risk.
        bind_err (rd report isVegetarian) (\<lambda>vgt.
        bind_err (rd report isVegan) (\<lambda>vgn.
        bind_err (rd report isGlutenFree) (\<lambda>gf.
        bind_err (rd report isDairyFree) (\<lambda>df.
        bind_err (rd report isNutFree) (\<lambda>nf.
        bind_err (rd report allergens) (\<lambda>als.
        bind_err (rd report safeAllergens) (\<lambda>safe.
        bind_err (rd report ingredients) (\<lambda>ings.
        bind_err (rd report recommendations) (\<lambda>recs.
        bind_err (rd report scanTime) (\<lambda>st.
          Inr (ScanResults
            \<lparr>title = dn,
             restaurant_line = truthy rest,
             risk_color = getRiskColor risk,
             risk_icon = getRiskIcon risk,
             risk_label = risk,
             flag_chips = [(''Vegetarian'', vgt, ''eco''), (''Vegan'', vgn, ''spa''),
               (''Gluten-Free'', gf, ''grain''), (''Dairy-Free'', df, ''water_drop''),
               (''Nut-Free'', nf, ''nature'')],
             allergen_box =
               (if length als > 0
                then AllergenWarning (length als)
                       (map (\<lambda>a. (AllergenBadge a Md, truthy (description a))) als)
                else AllClear),
             safe_box = (if length safe > 0 then Some safe else None),
             ingredient_chips = ings,
             recommendation_box =
               (case recs of None \<Rightarrow> None
                | Some rs \<Rightarrow> if length rs > 0 then Some rs else None),
             scan_time_line = truthy st\<rparr>)))))))))))))))"

subsection \<open>The rules of the specification, for comparison\<close>

text \<open>
  Modelled from the spec: the whole-token matching law of the Matcher (no ingredient
  matcher is in the source). An ingredient is lower-cased and cut at white space; an
  indicator phrase matches when its tokens occur as a contiguous run of the
  ingredient's tokens.
\<close>

fun spec_tokens_from :: "string \<Rightarrow> string \<Rightarrow> string list" where
  "spec_tokens_from cur [] = (if cur = [] then [] else [cur])"
| "spec_tokens_from cur (c # cs) =
     (if is_space c then (if cur = [] then [] else [cur]) @ spec_tokens_from [] cs
      else spec_tokens_from (cur @ [c]) cs)"

definition spec_normalize :: "string \<Rightarrow> string list" where
  "spec_normalize raw = spec_tokens_from [] (toLowerCase raw)"

definition spec_phrase_matches :: "string list \<Rightarrow> string list \<Rightarrow> bool" where
  "spec_phrase_matches phrase toks = (phrase \<noteq> [] \<and> sublist phrase toks)"

text \<open>
  Modelled from the spec: the severity of a category is the greatest severity among
  its findings (high over medium over low); a finding is a category with a severity.
\<close>

fun severity_rank :: "AllergenSeverity \<Rightarrow> nat" where
  "severity_rank High = 3"
| "severity_rank Medium = 2"
| "severity_rank Low = 1"

fun spec_max_severity :: "AllergenSeverity list \<Rightarrow> AllergenSeverity option" where
  "spec_max_severity [] = None"
| "spec_max_severity (s # ss) =
     (case spec_max_severity ss of
        None \<Rightarrow> Some s
      | Some m \<Rightarrow> if severity_rank m < severity_rank s then Some s else Some m)"

definition spec_category_severity ::
    "(string \<times> AllergenSeverity) list \<Rightarrow> string \<Rightarrow> AllergenSeverity option" where
  "spec_category_severity findings cat =
     spec_max_severity (map snd (filter (\<lambda>f. fst f = cat) findings))"

text \<open>
  Modelled from the spec: the risk policy of the Risk Scorer. HIGH with a
  high-severity category or with three distinct categories, MEDIUM when the highest
  severity is medium, LOW otherwise.
\<close>

definition spec_risk_level :: "Allergen list \<Rightarrow> RiskLevel" where
  "spec_risk_level als =
     (if list_ex (\<lambda>a. severity a = High) als \<or> 3 \<le> length (remdups (map name als))
      then HIGH
      else if list_ex (\<lambda>a. severity a = Medium) als then MEDIUM
      else LOW)"

text \<open>
  Modelled from the spec: the universe of fourteen categories in its declaration
  order, and the safe categories as its complement (the source declares no universe).
\<close>

definition universe14 :: "string list" where
  "universe14 = [''Celery'', ''Gluten-Cereals'', ''Crustaceans'', ''Eggs'', ''Fish'', ''Lupin'',
     ''Milk'', ''Molluscs'', ''Mustard'', ''Nuts'', ''Peanuts'', ''Sesame'', ''Soya'',
     ''Sulphites'']"

definition spec_safe_categories :: "string list \<Rightarrow> string list" where
  "spec_safe_categories detected = filter (\<lambda>c. c \<notin> set detected) universe14"

subsection \<open>Concrete inputs\<close>

definition clock_a :: clock where
  "clock_a k = ''2026-01-01T10:00:00.000Z''"

definition clock_b :: clock where
  "clock_b k = ''2026-01-01T10:00:05.000Z''"

definition response_with :: "string list \<Rightarrow> RiskLevel \<Rightarrow> scan_response" where
  "response_with detected risk =
     \<lparr>dish_name = ''Satay'', restaurant_name = ''Corner Grill'',
      allergens_detected = detected, data_ingredients = [''chicken''],
      risk_level = risk, data_recommendations = [],
      dairy_free = True, gluten_free = True, vegan = False, vegetarian = False\<rparr>"

section \<open>Properties\<close>

subsection \<open>Strings\<close>

lemma includes_str_sublist: "includes_str s t \<longleftrightarrow> sublist t s"
  by (induction s) (simp_all add: sublist_Cons_right)

lemma lower_upper_char: "lower_char (upper_char c) = lower_char c"
  unfolding lower_char_def upper_char_def Let_def
  by auto

lemma toLowerCase_capitalised:
  "toLowerCase (toUpperCase (charAt0 n) @ slice1 n) = toLowerCase n"
proof (cases n)
  case Nil
  then show ?thesis
    by (simp add: toLowerCase_def toUpperCase_def charAt0_def slice1_def)
next
  case (Cons c cs)
  then show ?thesis
    by (simp add: toLowerCase_def toUpperCase_def charAt0_def slice1_def lower_upper_char)
qed

lemma toLowerCase_empty: "toLowerCase [] = []"
  by (simp add: toLowerCase_def)

lemma trim_empty: "trim [] = []"
  by (simp add: trim_def)

lemma norm_Burger: "trim (toLowerCase ''Burger'') = ''burger''"
  by code_simp

lemma norm_Sushi: "trim (toLowerCase ''Sushi'') = ''sushi''"
  by code_simp

lemma norm_Tom_Yum: "trim (toLowerCase '' Tom Yum'') = ''tom yum''"
  by code_simp

lemma norm_qwerty: "trim (toLowerCase ''qwerty 123 !!'') = ''qwerty 123 !!''"
  by code_simp

lemma norm_Constructor: "trim (toLowerCase ''Constructor'') = ''constructor''"
  by code_simp

lemma norm_Laksa: "trim (toLowerCase ''Laksa'') = ''laksa''"
  by code_simp

lemma norm_Pad_Thai: "trim (toLowerCase ''Pad Thai'') = ''pad thai''"
  by code_simp

text \<open>A trailing no-break space is trimmed, and a Latin-1 first letter is capitalised.\<close>

lemma norm_no_break_space:
  "trim (toLowerCase (''Pad Thai'' @ [char_of (160::nat)])) = ''pad thai''"
  by code_simp

lemma ascii_milk: "ascii ''milk''"
  by code_simp

lemma ascii_tree_nuts: "ascii ''tree nuts''"
  by code_simp

lemma capital_milk: "toUpperCase (charAt0 ''milk'') @ slice1 ''milk'' = ''Milk''"
  by code_simp

lemma capital_tree_nuts:
  "toUpperCase (charAt0 ''tree nuts'') @ slice1 ''tree nuts'' = ''Tree nuts''"
  by code_simp

lemma capital_latin1:
  "toUpperCase (charAt0 (char_of (233::nat) # ''clair'')) @ slice1 (char_of (233::nat) # ''clair'')
     = char_of (201::nat) # ''clair''"
  by code_simp

lemma lower_Peanuts: "toLowerCase ''Peanuts'' = ''peanuts''"
  by code_simp

lemma lower_milk: "toLowerCase ''milk'' = ''milk''"
  by code_simp

subsection \<open>The branches of analyzeDish\<close>

lemma mockData_empty: "mockData clk [] = None"
  by (simp add: mockData_def)

lemma analyzeDish_unmatched:
  assumes "trim (toLowerCase n) \<notin> {''pad thai'', ''burger'', ''constructor'', ''__proto__''}"
  shows "analyzeDish clk n = Inr (ReportV (defaultReport n (clk 2)))"
  using assms by (simp add: analyzeDish_def mockData_def Let_def)

lemma analyzeDish_pad_thai:
  assumes "trim (toLowerCase n) = ''pad thai''"
  shows "analyzeDish clk n = Inr (ReportV (padThai (clk 0)))"
  using assms by (simp add: analyzeDish_def mockData_def)

lemma analyzeDish_burger:
  assumes "trim (toLowerCase n) = ''burger''"
  shows "analyzeDish clk n = Inr (ReportV (burger (clk 1)))"
  using assms by (simp add: analyzeDish_def mockData_def)

lemma analyzeDish_cases:
  "analyzeDish clk n = Inr (ReportV (padThai (clk 0)))
   \<or> analyzeDish clk n = Inr (ReportV (burger (clk 1)))
   \<or> analyzeDish clk n = Inr ObjectConstructor
   \<or> analyzeDish clk n = Inr ObjectPrototype
   \<or> analyzeDish clk n = Inr (ReportV (defaultReport n (clk 2)))"
  by (simp add: analyzeDish_def mockData_def Let_def)

lemma analyzeDish_report_cases:
  assumes "report_of (analyzeDish clk n) = Some r"
  shows "r = padThai (clk 0) \<or> r = burger (clk 1) \<or> r = defaultReport n (clk 2)"
  using assms analyzeDish_cases [of clk n] by auto

lemma analyzeDish_Burger: "analyzeDish clk ''Burger'' = Inr (ReportV (burger (clk 1)))"
  by (simp add: analyzeDish_def norm_Burger mockData_def)

lemma analyzeDish_Sushi:
  "analyzeDish clk ''Sushi'' = Inr (ReportV (defaultReport ''Sushi'' (clk 2)))"
  by (rule analyzeDish_unmatched) (simp add: norm_Sushi)

subsection \<open>Matching on allergen names\<close>

lemma isNutFree_transformResponse:
  "isNutFree (transformResponse t data)
     = list_all (\<lambda>n. \<not> sublist ''nut'' (toLowerCase n)) (allergens_detected data)"
  by (simp add: transformResponse_def Let_def list_all_iff includes_str_sublist
      toLowerCase_capitalised)

text \<open>
  C1 (as stated) fails. Under the whole-token law the phrase \<open>nut\<close> matches neither
  \<open>nutmeg\<close> nor \<open>peanuts\<close>; the report built from a backend response that lists
  either name is marked not nut-free all the same, and the badge of \<open>Nutmeg\<close> gets the
  nut icon: both go by substring containment.
\<close>

theorem nut_free_substring_counterexample:
  "\<not> spec_phrase_matches [''nut''] (spec_normalize ''nutmeg'')
   \<and> \<not> isNutFree (transformResponse (clock_a 0) (response_with [''nutmeg''] LOW))
   \<and> \<not> spec_phrase_matches [''nut''] (spec_normalize ''peanuts'')
   \<and> \<not> isNutFree (transformResponse (clock_a 0) (response_with [''peanuts''] HIGH))
   \<and> getIcon ''Nutmeg'' = ''eco''"
  by code_simp

text \<open>
  C1 (as amended). Matching on allergen names is by substring containment: the report
  built from a backend response is nut-free exactly when no detected name, lower-cased,
  contains \<open>nut\<close> anywhere, and every name that contains it gets the nut icon.
\<close>

theorem isNutFree_substring:
  "(isNutFree (transformResponse t data)
      \<longleftrightarrow> (\<forall>n \<in> set (allergens_detected data). \<not> sublist ''nut'' (toLowerCase n)))
   \<and> (sublist ''nut'' (toLowerCase nm) \<longrightarrow> getIcon nm = ''eco'')"
proof (intro conjI impI)
  show "isNutFree (transformResponse t data)
      \<longleftrightarrow> (\<forall>n \<in> set (allergens_detected data). \<not> sublist ''nut'' (toLowerCase n))"
    unfolding isNutFree_transformResponse by (simp add: list_all_iff)
next
  assume "sublist ''nut'' (toLowerCase nm)"
  then have "includes_str (toLowerCase nm) ''nut''"
    by (simp add: includes_str_sublist)
  then show "getIcon nm = ''eco''"
    by (simp add: getIcon_def)
qed

theorem isNutFree_substring_witness:
  "isNutFree (transformResponse (clock_a 0) (response_with [''milk''] LOW))
   \<and> getIcon ''Peanuts'' = ''eco''"
  using isNutFree_substring [of "clock_a 0" "response_with [''milk''] LOW" "''Peanuts''"]
  by (simp add: response_with_def lower_Peanuts lower_milk sublist_Cons_right)

subsection \<open>Risk level\<close>

text \<open>The entry for pad thai and the default report follow the risk policy.\<close>

lemma risk_policy_other_entries:
  "spec_risk_level (allergens (padThai t)) = riskLevel (padThai t)
   \<and> spec_risk_level (allergens (defaultReport n t)) = riskLevel (defaultReport n t)"
  by (simp add: spec_risk_level_def padThai_def defaultReport_def)

text \<open>
  C2 fails on the burger entry. The dish name \<open>Burger\<close> selects it; its allergens
  have severities high, medium and low over three distinct categories, the risk policy
  gives HIGH, and the report says MEDIUM.
\<close>

theorem burger_risk_level:
  "report_of (analyzeDish clk ''Burger'') = Some (burger (clk 1))
   \<and> map severity (allergens (burger (clk 1))) = [High, Medium, Low]
   \<and> riskLevel (burger (clk 1)) = MEDIUM
   \<and> spec_risk_level (allergens (burger (clk 1))) = HIGH"
  by (simp add: analyzeDish_Burger burger_def spec_risk_level_def)

subsection \<open>Severities\<close>

text \<open>
  C3 (as stated) fails. A single finding for celery with severity low aggregates to
  low; the report built from the response that lists \<open>celery\<close> gives it severity high.
\<close>

theorem severity_constant_counterexample:
  "spec_category_severity [(''celery'', Low)] ''celery'' = Some Low
   \<and> map name (allergens (transformResponse (clock_a 0) (response_with [''celery''] LOW)))
       = [''Celery'']
   \<and> map severity (allergens (transformResponse (clock_a 0) (response_with [''celery''] LOW)))
       = [High]"
  by code_simp

text \<open>
  C3 (as amended). The report built from a backend response has one allergen for each
  detected name, in the order of the response and without grouping, each with the
  constant severity high; where the detected names are ASCII text, each allergen is
  named by the detected name with its first letter capitalised.
\<close>

theorem backend_severity_high:
  "map severity (allergens (transformResponse t data))
     = replicate (length (allergens_detected data)) High
   \<and> (list_all ascii (allergens_detected data) \<longrightarrow>
        map name (allergens (transformResponse t data))
          = map (\<lambda>n. toUpperCase (charAt0 n) @ slice1 n) (allergens_detected data))"
proof -
  define entry where "entry = (\<lambda>n. \<lparr>name = toUpperCase (charAt0 n) @ slice1 n,
    severity = High, description = Some (''Contains '' @ n)\<rparr>)"
  have built: "allergens (transformResponse t data) = map entry (allergens_detected data)"
    by (simp add: transformResponse_def Let_def entry_def)
  have sev: "map severity (map entry ns) = replicate (length ns) High" for ns
    by (induction ns) (simp_all add: entry_def)
  have nam: "map name (map entry ns) = map (\<lambda>n. toUpperCase (charAt0 n) @ slice1 n) ns" for ns
    by (induction ns) (simp_all add: entry_def)
  from built sev nam show ?thesis by simp
qed

theorem backend_severity_high_witness:
  "map name (allergens
      (transformResponse (clock_a 0) (response_with [''milk'', ''tree nuts''] HIGH)))
     = [''Milk'', ''Tree nuts'']
   \<and> map severity (allergens
      (transformResponse (clock_a 0) (response_with [''milk'', ''tree nuts''] HIGH)))
     = [High, High]"
  using backend_severity_high [of "clock_a 0" "response_with [''milk'', ''tree nuts''] HIGH"]
  by (simp add: response_with_def ascii_milk ascii_tree_nuts capital_milk capital_tree_nuts)

subsection \<open>Safe allergens\<close>

lemma entry_safe_lists:
  assumes "r = padThai u \<or> r = burger v \<or> r = defaultReport n w"
  shows "set (safeAllergens r) \<inter> set (map name (allergens r)) = {}
      \<and> (safeAllergens r = [''Dairy'', ''Gluten'', ''Soy'', ''Tree Nuts'']
         \<or> safeAllergens r = [''Nuts'', ''Shellfish'', ''Soy'']
         \<or> safeAllergens r = [''Nuts'', ''Dairy'', ''Shellfish''])"
  using assms by (auto simp: padThai_def burger_def defaultReport_def)

text \<open>
  C4 (as stated) fails. The report built from a backend response that detects nothing
  has an empty safe list, where the complement in the universe is all fourteen
  categories.
\<close>

theorem safe_list_counterexample:
  "allergens (transformResponse (clock_a 0) (response_with [] LOW)) = []
   \<and> safeAllergens (transformResponse (clock_a 0) (response_with [] LOW)) = []
   \<and> spec_safe_categories [] = universe14
   \<and> length universe14 = 14"
  by (simp add: transformResponse_def response_with_def spec_safe_categories_def universe14_def)

text \<open>
  C4 (as amended). In every report of \<open>analyzeDish\<close> the safe list is one of the three
  fixed lists of the source and shares no name with the detected allergens; the report
  built from a backend response always has the empty safe list.
\<close>

theorem safe_list_disjoint:
  "(report_of (analyzeDish clk n) = Some r \<longrightarrow>
      set (safeAllergens r) \<inter> set (map name (allergens r)) = {}
      \<and> (safeAllergens r = [''Dairy'', ''Gluten'', ''Soy'', ''Tree Nuts'']
         \<or> safeAllergens r = [''Nuts'', ''Shellfish'', ''Soy'']
         \<or> safeAllergens r = [''Nuts'', ''Dairy'', ''Shellfish'']))
   \<and> safeAllergens (transformResponse t data) = []"
proof (intro conjI impI)
  assume "report_of (analyzeDish clk n) = Some r"
  then have r: "r = padThai (clk 0) \<or> r = burger (clk 1) \<or> r = defaultReport n (clk 2)"
    by (rule analyzeDish_report_cases)
  from entry_safe_lists [OF r]
  show "set (safeAllergens r) \<inter> set (map name (allergens r)) = {}"
    and "safeAllergens r = [''Dairy'', ''Gluten'', ''Soy'', ''Tree Nuts'']
         \<or> safeAllergens r = [''Nuts'', ''Shellfish'', ''Soy'']
         \<or> safeAllergens r = [''Nuts'', ''Dairy'', ''Shellfish'']"
    by blast+
next
  show "safeAllergens (transformResponse t data) = []"
    by (simp add: transformResponse_def Let_def)
qed

theorem safe_list_disjoint_witness:
  "report_of (analyzeDish clock_a ''Burger'') = Some (burger (clock_a 1))
   \<and> set (safeAllergens (burger (clock_a 1)))
       \<inter> set (map name (allergens (burger (clock_a 1)))) = {}"
  using safe_list_disjoint [of clock_a "''Burger''" "burger (clock_a 1)"]
  by (simp add: analyzeDish_Burger)

subsection \<open>The empty input\<close>

text \<open>
  C6 (as stated) fails. The empty dish name gives a report with an allergen, false
  dietary flags, risk level MEDIUM and a recommendation.
\<close>

theorem empty_input_counterexample:
  "report_of (analyzeDish clock_a []) = Some (defaultReport [] (clock_a 2))
   \<and> map name (allergens (defaultReport [] (clock_a 2))) = [''Gluten'']
   \<and> isVegetarian (defaultReport [] (clock_a 2)) = False
   \<and> isVegan (defaultReport [] (clock_a 2)) = False
   \<and> isGlutenFree (defaultReport [] (clock_a 2)) = False
   \<and> isDairyFree (defaultReport [] (clock_a 2)) = False
   \<and> riskLevel (defaultReport [] (clock_a 2)) = MEDIUM
   \<and> recommendations (defaultReport [] (clock_a 2))
       = Some [''Please verify ingredients with restaurant staff'']"
  by (simp add: analyzeDish_def toLowerCase_empty trim_empty mockData_empty defaultReport_def)

text \<open>
  C6 (as amended). Analysing the empty dish name returns the default report: one
  allergen (Gluten, medium), the four dietary flags false, risk level MEDIUM and one
  recommendation.
\<close>

theorem analyzeDish_empty_name:
  "analyzeDish clk [] = Inr (ReportV (defaultReport [] (clk 2)))
   \<and> allergens (defaultReport [] (clk 2))
       = [\<lparr>name = ''Gluten'', severity = Medium, description = Some ''May contain wheat''\<rparr>]
   \<and> \<not> isVegetarian (defaultReport [] (clk 2))
   \<and> \<not> isVegan (defaultReport [] (clk 2))
   \<and> \<not> isGlutenFree (defaultReport [] (clk 2))
   \<and> \<not> isDairyFree (defaultReport [] (clk 2))
   \<and> riskLevel (defaultReport [] (clk 2)) = MEDIUM
   \<and> recommendations (defaultReport [] (clk 2))
       = Some [''Please verify ingredients with restaurant staff'']"
  by (simp add: analyzeDish_def toLowerCase_empty trim_empty mockData_empty defaultReport_def)

subsection \<open>Dietary flags of an unknown dish\<close>

text \<open>
  C5 (as stated) fails. The dish name \<open>Sushi\<close> selects no entry; its report lists
  only unknown ingredients, so nothing can match a disqualifying phrase, and the four
  dietary flags are false.
\<close>

theorem unknown_dish_flags_counterexample:
  "report_of (analyzeDish clock_a ''Sushi'') = Some (defaultReport ''Sushi'' (clock_a 2))
   \<and> ingredients (defaultReport ''Sushi'' (clock_a 2))
       = [''Unknown ingredients - please verify with staff'']
   \<and> isVegetarian (defaultReport ''Sushi'' (clock_a 2)) = False
   \<and> isVegan (defaultReport ''Sushi'' (clock_a 2)) = False
   \<and> isGlutenFree (defaultReport ''Sushi'' (clock_a 2)) = False
   \<and> isDairyFree (defaultReport ''Sushi'' (clock_a 2)) = False"
  by (simp add: analyzeDish_Sushi defaultReport_def)

text \<open>
  C5 (as amended). For a dish name that, lower-cased and trimmed, is neither an entry
  of the mock table nor a name the table inherits, the report lists unknown
  ingredients and has the four dietary flags false.
\<close>

theorem unknown_dish_flags_false:
  assumes "trim (toLowerCase n) \<notin> {''pad thai'', ''burger'', ''constructor'', ''__proto__''}"
  shows "\<exists>r. report_of (analyzeDish clk n) = Some r
           \<and> ingredients r = [''Unknown ingredients - please verify with staff'']
           \<and> \<not> isVegetarian r \<and> \<not> isVegan r \<and> \<not> isGlutenFree r \<and> \<not> isDairyFree r"
  by (simp add: analyzeDish_unmatched [OF assms] defaultReport_def)

theorem unknown_dish_flags_false_witness:
  "\<exists>r. report_of (analyzeDish clock_a '' Tom Yum'') = Some r
        \<and> ingredients r = [''Unknown ingredients - please verify with staff'']
        \<and> \<not> isVegetarian r \<and> \<not> isVegan r \<and> \<not> isGlutenFree r \<and> \<not> isDairyFree r"
  by (rule unknown_dish_flags_false) (simp add: norm_Tom_Yum)

subsection \<open>Totality\<close>

text \<open>
  C7 (as stated) fails in its last part. A nonsensical dish name is answered, and the
  answer carries a finding: the Gluten allergen of the default report.
\<close>

theorem unmatched_finding_counterexample:
  "report_of (analyzeDish clock_b ''qwerty 123 !!'')
     = Some (defaultReport ''qwerty 123 !!'' (clock_b 2))
   \<and> map name (allergens (defaultReport ''qwerty 123 !!'' (clock_b 2))) = [''Gluten'']"
proof -
  have "analyzeDish clock_b ''qwerty 123 !!''
      = Inr (ReportV (defaultReport ''qwerty 123 !!'' (clock_b 2)))"
    by (rule analyzeDish_unmatched) (simp add: norm_qwerty)
  then show ?thesis by (simp add: defaultReport_def)
qed

text \<open>
  C7 (as amended). For every dish name that, lower-cased and trimmed, is not one of
  the two inherited names, \<open>analyzeDish\<close> returns a report and never ends in a
  rejection; a name that selects nothing is answered by the default report, which
  carries one finding (Gluten, medium).
\<close>

theorem analyzeDish_total:
  "(trim (toLowerCase n) \<notin> {''constructor'', ''__proto__''} \<longrightarrow>
        (\<exists>r. analyzeDish clk n = Inr (ReportV r)))
   \<and> (trim (toLowerCase n) \<notin> {''pad thai'', ''burger'', ''constructor'', ''__proto__''} \<longrightarrow>
        analyzeDish clk n = Inr (ReportV (defaultReport n (clk 2)))
        \<and> map name (allergens (defaultReport n (clk 2))) = [''Gluten'']
        \<and> map severity (allergens (defaultReport n (clk 2))) = [Medium])"
proof (intro conjI impI)
  assume inherited: "trim (toLowerCase n) \<notin> {''constructor'', ''__proto__''}"
  consider "trim (toLowerCase n) = ''pad thai''" | "trim (toLowerCase n) = ''burger''"
    | "trim (toLowerCase n) \<notin> {''pad thai'', ''burger'', ''constructor'', ''__proto__''}"
    using inherited by auto
  then show "\<exists>r. analyzeDish clk n = Inr (ReportV r)"
  proof cases
    case 1
    then show ?thesis by (simp add: analyzeDish_pad_thai)
  next
    case 2
    then show ?thesis by (simp add: analyzeDish_burger)
  next
    case 3
    then show ?thesis by (simp add: analyzeDish_unmatched)
  qed
next
  assume "trim (toLowerCase n) \<notin> {''pad thai'', ''burger'', ''constructor'', ''__proto__''}"
  then show "analyzeDish clk n = Inr (ReportV (defaultReport n (clk 2)))"
    by (rule analyzeDish_unmatched)
next
  show "map name (allergens (defaultReport n (clk 2))) = [''Gluten'']"
    by (simp add: defaultReport_def)
next
  show "map severity (allergens (defaultReport n (clk 2))) = [Medium]"
    by (simp add: defaultReport_def)
qed

theorem analyzeDish_total_witness:
  "analyzeDish clock_a ''Laksa'' = Inr (ReportV (defaultReport ''Laksa'' (clock_a 2)))
   \<and> map name (allergens (defaultReport ''Laksa'' (clock_a 2))) = [''Gluten'']
   \<and> (\<exists>r. analyzeDish clock_a ''Pad Thai'' = Inr (ReportV r))"
  using analyzeDish_total [of "''Laksa''" clock_a] analyzeDish_total [of "''Pad Thai''" clock_a]
  by (simp add: norm_Laksa norm_Pad_Thai)

subsection \<open>Two runs\<close>

text \<open>
  C8 (as stated) fails. Two runs on the same dish name at different clock readings
  give different results: the scan times differ.
\<close>

theorem timestamp_counterexample:
  "analyzeDish clock_a ''Sushi'' \<noteq> analyzeDish clock_b ''Sushi''"
  by (simp add: analyzeDish_Sushi defaultReport_def clock_a_def clock_b_def)

text \<open>
  C8 (as amended). Two runs of \<open>analyzeDish\<close> on the same dish name give results that
  are equal in everything but the scan time, whatever the clocks read.
\<close>

theorem analyzeDish_same_up_to_scanTime:
  "without_scanTime (analyzeDish c1 n) = without_scanTime (analyzeDish c2 n)"
proof -
  have entries: "(padThai u)\<lparr>scanTime := None\<rparr> = (padThai v)\<lparr>scanTime := None\<rparr>"
    "(burger u)\<lparr>scanTime := None\<rparr> = (burger v)\<lparr>scanTime := None\<rparr>"
    "(defaultReport n u)\<lparr>scanTime := None\<rparr> = (defaultReport n v)\<lparr>scanTime := None\<rparr>"
    for u v by (simp_all add: padThai_def burger_def defaultReport_def)
  consider "trim (toLowerCase n) = ''pad thai''" | "trim (toLowerCase n) = ''burger''"
    | "trim (toLowerCase n) = ''constructor''" | "trim (toLowerCase n) = ''__proto__''"
    | "trim (toLowerCase n) \<notin> {''pad thai'', ''burger'', ''constructor'', ''__proto__''}"
    by auto
  then show ?thesis
  proof cases
    case 1
    then show ?thesis by (simp add: analyzeDish_def mockData_def entries)
  next
    case 2
    then show ?thesis by (simp add: analyzeDish_def mockData_def entries)
  next
    case 3
    then show ?thesis by (simp add: analyzeDish_def mockData_def)
  next
    case 4
    then show ?thesis by (simp add: analyzeDish_def mockData_def)
  next
    case 5
    then show ?thesis by (simp add: analyzeDish_unmatched entries)
  qed
qed

subsection \<open>The raw dish name\<close>

text \<open>
  Where the lookup finds nothing, the report carries the raw dish name.
\<close>

lemma unmatched_dishName_raw:
  assumes "trim (toLowerCase n) \<notin> {''pad thai'', ''burger'', ''constructor'', ''__proto__''}"
  shows "map_option dishName (report_of (analyzeDish clk n)) = Some n"
  by (simp add: analyzeDish_unmatched [OF assms] defaultReport_def)

text \<open>
  C9 fails on an inherited name. The dish name \<open>Constructor\<close> has no entry in the mock
  table, yet the lookup finds the inherited \<^verbatim>\<open>constructor\<close>, the default report is
  not built, and the value returned is no report: it has no \<^verbatim>\<open>dishName\<close>.
\<close>

theorem constructor_not_a_report:
  "analyzeDish clk ''Constructor'' = Inr ObjectConstructor
   \<and> report_of (analyzeDish clk ''Constructor'') = None
   \<and> mockData clk (trim (toLowerCase ''Constructor'')) \<noteq> Some (ReportV (padThai (clk 0)))
   \<and> mockData clk (trim (toLowerCase ''Constructor'')) \<noteq> Some (ReportV (burger (clk 1)))"
  by (simp add: analyzeDish_def norm_Constructor mockData_def)

subsection \<open>The result page on null\<close>

lemma ResultPage_Some:
  "\<exists>v. ResultPage (Some r) = Inr (ScanResults v) \<and> title v = dishName r"
  by (simp add: ResultPage_def rd_def bind_err_def)

text \<open>
  C10. The result page renders for every report argument: on \<^verbatim>\<open>null\<close> it is the
  fallback ("No scan data available") and no field read throws; on a report it is the
  result view, titled with the dish name.
\<close>

theorem ResultPage_null_safe:
  "ResultPage None = Inr NoScanData
   \<and> (\<exists>v. ResultPage report = Inr v)
   \<and> (\<exists>rv. ResultPage (Some r) = Inr (ScanResults rv) \<and> title rv = dishName r)"
proof (intro conjI)
  show "ResultPage None = Inr NoScanData"
    by (simp add: ResultPage_def)
next
  show "\<exists>v. ResultPage report = Inr v"
  proof (cases report)
    case None
    then show ?thesis by (simp add: ResultPage_def)
  next
    case (Some x)
    with ResultPage_Some [of x] show ?thesis by blast
  qed
next
  show "\<exists>rv. ResultPage (Some r) = Inr (ScanResults rv) \<and> title rv = dishName r"
    by (rule ResultPage_Some)
qed

end
